theory Spec2Isabelle
  imports Main
begin

section \<open>File enumeration: \<open>Tools/c-analyzer/c_analyzer_common/files.py\<close>\<close>

subsection \<open>Python values, exceptions and generators\<close>

text \<open>
  The arguments of the entry points are dynamically typed: a root may be a string, a
  sequence of roots (nested at will), or something that is neither. The exceptions are
  the ones the module can end with.
\<close>

datatype error = NameError string | ValueError string | TypeError string

datatype pyval = PNone | PStr string | PInt int | PSeq "pyval list"

fun truthy :: "pyval \<Rightarrow> bool" where
  "truthy PNone = False"
| "truthy (PStr s) = (s \<noteq> [])"
| "truthy (PInt i) = (i \<noteq> 0)"
| "truthy (PSeq xs) = (xs \<noteq> [])"

fun is_str :: "pyval \<Rightarrow> bool" where
  "is_str (PStr s) = True"
| "is_str v = False"

text \<open>\<open>for x in v\<close>: a sequence gives its items, a string its characters, anything
  else is not iterable.\<close>

fun py_iter :: "pyval \<Rightarrow> error + pyval list" where
  "py_iter (PSeq xs) = Inr xs"
| "py_iter (PStr s) = Inr (map (\<lambda>c. PStr [c]) s)"
| "py_iter PNone = Inl (TypeError ''NoneType object is not iterable'')"
| "py_iter (PInt i) = Inl (TypeError ''int object is not iterable'')"

text \<open>
  Every function of the module is a generator. A run of a generator is the list of the
  values it yielded, in order, and the exception that ended it, if one did.
\<close>

type_synonym 'a gen = "'a list \<times> error option"

text \<open>\<open>for x in xs: yield from f(x)\<close>.\<close>

fun gen_chain :: "('a \<Rightarrow> 'b gen) \<Rightarrow> 'a list \<Rightarrow> 'b gen" where
  "gen_chain f [] = ([], None)"
| "gen_chain f (x # xs) =
     (case f x of
        (ys, Some e) \<Rightarrow> (ys, Some e)
      | (ys, None) \<Rightarrow> (case gen_chain f xs of (zs, e) \<Rightarrow> (ys @ zs, e)))"

text \<open>One loop after another in the same generator body.\<close>

fun gen_append :: "'a gen \<Rightarrow> 'a gen \<Rightarrow> 'a gen" where
  "gen_append (ys, Some e) g = (ys, Some e)"
| "gen_append (ys, None) (zs, e) = (ys @ zs, e)"

subsection \<open>What the module takes from outside\<close>

text \<open>
  An entry of a directory walk is \<open>(parent, dirs, names)\<close>. The file system and the
  platform are parameters: \<open>os.walk\<close>, \<open>glob.iglob\<close>, \<open>os.path.join\<close>,
  \<open>os.path.relpath\<close> and the formatting of a value inside an f-string. The last two
  fields give what a call of a module-level name would do if the name were bound; they
  are parameters too, so that nothing proved below depends on them.
\<close>

type_synonym entry = "string \<times> string list \<times> string list"

datatype walk_fn = OsWalk | UWalkTree | UserWalk "pyval \<Rightarrow> entry gen"

datatype files_fn =
  OsWalkF | GlobGlob | GlobIglob | GlobTree | WalkTree | UserFiles "pyval \<Rightarrow> entry gen"

record env =
  os_walk :: "pyval \<Rightarrow> entry gen"
  iglob :: "string \<Rightarrow> string gen"
  path_join :: "string \<Rightarrow> string \<Rightarrow> string"
  relpath :: "string \<Rightarrow> pyval \<Rightarrow> error + string"
  py_format :: "pyval \<Rightarrow> string"
  call_bound :: "string \<Rightarrow> pyval \<Rightarrow> entry gen"
  bound_files :: "string \<Rightarrow> files_fn"

subsection \<open>Name resolution\<close>

text \<open>
  The names bound at module level of \<open>files.py\<close>: its three imports, the constant
  \<open>C_SOURCE_SUFFIXES\<close> and its six \<open>def\<close> statements. A name that is not local to
  a function is looked up there and then among the builtins; the builtins listed are
  the ones the module refers to. No other builtin, and no name that the import system
  adds to a module, is spelled \<open>_walk\<close> or \<open>get_files\<close>.
\<close>

definition module_names :: "string list" where
  "module_names =
     [''glob'', ''os'', ''C_SOURCE_SUFFIXES'', ''_walk_tree'', ''walk_tree'', ''glob_tree'',
      ''iter_files'', ''iter_files_by_suffix'', ''iter_cpython_files'']"

definition builtin_names :: "string list" where
  "builtin_names = [''isinstance'', ''str'', ''tuple'', ''ValueError'']"

definition load_global :: "string \<Rightarrow> error + string" where
  "load_global n =
     (if n \<in> set module_names \<or> n \<in> set builtin_names then Inr n else Inl (NameError n))"

subsection \<open>\<open>_walk_tree\<close>\<close>

text \<open>
  \<^verbatim>\<open>
  def _walk_tree(root):
      for parent, _, names in _walk(root):
          for name in names:
              yield os.path.join(parent, name)
  \<close>
  \<open>_walk\<close> is not a parameter or a local of \<open>_walk_tree\<close>, so it is a global lookup.
\<close>

definition join_entries :: "env \<Rightarrow> (string \<Rightarrow> bool) \<Rightarrow> entry list \<Rightarrow> string list" where
  "join_entries env keep entries =
     concat (map (\<lambda>(parent, _, names). map (path_join env parent) (filter keep names)) entries)"

definition uwalk_tree :: "env \<Rightarrow> pyval \<Rightarrow> string gen" where
  "uwalk_tree env root =
     (case load_global ''_walk'' of
        Inl e \<Rightarrow> ([], Some e)
      | Inr n \<Rightarrow> (case call_bound env n root of
                   (entries, err) \<Rightarrow> (join_entries env (\<lambda>name. True) entries, err)))"

subsection \<open>\<open>walk_tree\<close>\<close>

text \<open>
  \<open>for parent, _, names in walk(root)\<close> unpacks each item into three targets. The
  items of \<open>_walk_tree\<close> are path strings: a string unpacks only when it has exactly
  three characters, and then \<open>names\<close> is its last character.
\<close>

fun unpack_entry :: "string \<Rightarrow> error + entry" where
  "unpack_entry [a, b, c] = Inr ([a], [[b]], [[c]])"
| "unpack_entry s = Inl (ValueError ''not enough or too many values to unpack (expected 3)'')"

fun unpack_all :: "string gen \<Rightarrow> entry gen" where
  "unpack_all ([], err) = ([], err)"
| "unpack_all (p # ps, err) =
     (case unpack_entry p of
        Inl e \<Rightarrow> ([], Some e)
      | Inr t \<Rightarrow> (case unpack_all (ps, err) of (ts, err') \<Rightarrow> (t # ts, err')))"

fun call_walk :: "env \<Rightarrow> walk_fn \<Rightarrow> pyval \<Rightarrow> entry gen" where
  "call_walk env OsWalk root = os_walk env root"
| "call_walk env UWalkTree root = unpack_all (uwalk_tree env root)"
| "call_walk env (UserWalk f) root = f root"

definition endswith :: "string \<Rightarrow> string \<Rightarrow> bool" where
  "endswith name sfx = (length sfx \<le> length name \<and> drop (length name - length sfx) name = sfx)"

fun str_of :: "pyval \<Rightarrow> string" where
  "str_of (PStr s) = s"
| "str_of v = []"

text \<open>
  \<^verbatim>\<open>
  def walk_tree(root, *, suffix=None, walk=_walk_tree):
      if suffix and not isinstance(suffix, str):
          raise ValueError('suffix must be a string')
      for parent, _, names in walk(root):
          for name in names:
              if suffix and not name.endswith(suffix):
                  continue
              yield os.path.join(parent, name)
  \<close>
\<close>

definition walk_tree :: "env \<Rightarrow> pyval \<Rightarrow> pyval \<Rightarrow> walk_fn \<Rightarrow> string gen" where
  "walk_tree env root suffix walk =
     (if truthy suffix \<and> \<not> is_str suffix then ([], Some (ValueError ''suffix must be a string''))
      else case call_walk env walk root of
        (entries, err) \<Rightarrow>
          (join_entries env (\<lambda>name. \<not> (truthy suffix \<and> \<not> endswith name (str_of suffix))) entries,
           err))"

subsection \<open>\<open>glob_tree\<close>\<close>

text \<open>
  \<^verbatim>\<open>
  def glob_tree(root, *, suffix=None, _glob=glob.iglob):
      suffix = suffix or ''
      if not isinstance(suffix, str):
          raise ValueError('suffix must be a string')
      for filename in _glob(f'{root}/*{suffix}'):
          yield filename
      for filename in _glob(f'{root}/**/*{suffix}'):
          yield filename
  \<close>
  \<open>_glob\<close> is the field \<open>iglob\<close> of the environment.
\<close>

definition fmt :: "env \<Rightarrow> pyval \<Rightarrow> string" where
  "fmt env v = (case v of PStr s \<Rightarrow> s | _ \<Rightarrow> py_format env v)"

definition glob_tree :: "env \<Rightarrow> pyval \<Rightarrow> pyval \<Rightarrow> string gen" where
  "glob_tree env root suffix =
     (let suffix' = (if truthy suffix then suffix else PStr [])
      in if \<not> is_str suffix' then ([], Some (ValueError ''suffix must be a string''))
         else gen_append (iglob env (fmt env root @ ''/*'' @ str_of suffix'))
                         (iglob env (fmt env root @ ''/**/*'' @ str_of suffix')))"

subsection \<open>\<open>iter_files\<close>\<close>

text \<open>
  The hooks \<open>_glob\<close> and \<open>_walk\<close> are called with the root and, in one of the two
  branches, with the keyword \<open>suffix\<close>; \<open>_walk\<close> also gets the keyword \<open>walk\<close>.
  A keyword that is left out is \<open>None\<close> here, and the callee's default applies.
\<close>

type_synonym glob_hook = "pyval \<Rightarrow> pyval option \<Rightarrow> string gen"
type_synonym walk_hook = "pyval \<Rightarrow> pyval option \<Rightarrow> walk_fn \<Rightarrow> string gen"

definition kw_default :: "pyval option \<Rightarrow> pyval" where
  "kw_default k = (case k of None \<Rightarrow> PNone | Some v \<Rightarrow> v)"

definition glob_tree_hook :: "env \<Rightarrow> glob_hook" where
  "glob_tree_hook env root k = glob_tree env root (kw_default k)"

definition walk_tree_hook :: "env \<Rightarrow> walk_hook" where
  "walk_tree_hook env root k walk = walk_tree env root (kw_default k) walk"

text \<open>
  \<^verbatim>\<open>
      if get_files in (glob.glob, glob.iglob, glob_tree):
          get_files = _glob
      else:
          _files = _walk_tree if get_files in (os.walk, walk_tree) else get_files
          get_files = (lambda *a, **k: _walk(*a, walk=_files, **k))
  \<close>
\<close>

fun pick_files :: "files_fn \<Rightarrow> glob_hook \<Rightarrow> walk_hook \<Rightarrow> glob_hook" where
  "pick_files GlobGlob g w = g"
| "pick_files GlobIglob g w = g"
| "pick_files GlobTree g w = g"
| "pick_files OsWalkF g w = (\<lambda>root k. w root k UWalkTree)"
| "pick_files WalkTree g w = (\<lambda>root k. w root k UWalkTree)"
| "pick_files (UserFiles f) g w = (\<lambda>root k. w root k (UserWalk f))"

text \<open>\<open>filename.endswith(suffix)\<close> for a tuple: the items are tried in order, and an
  item that is not a string raises when it is reached.\<close>

fun endswith_tuple :: "string \<Rightarrow> pyval list \<Rightarrow> error + bool" where
  "endswith_tuple name [] = Inr False"
| "endswith_tuple name (PStr s # rest) =
     (if endswith name s then Inr True else endswith_tuple name rest)"
| "endswith_tuple name (v # rest) = Inl (TypeError ''tuple for endswith must only contain str'')"

text \<open>
  \<^verbatim>\<open>
      for filename in filenames:
          if suffix and not isinstance(suffix, str):  # multiple suffixes
              if not filename.endswith(suffix):
                  continue
          if relparent:
              filename = os.path.relpath(filename, relparent)
          yield filename
  \<close>
  Here \<open>suffix\<close> is \<open>None\<close> or the tuple made of the caller's suffixes.
\<close>

fun keep_file :: "string \<Rightarrow> pyval list option \<Rightarrow> error + bool" where
  "keep_file name None = Inr True"
| "keep_file name (Some []) = Inr True"
| "keep_file name (Some (s # ss)) = endswith_tuple name (s # ss)"

fun filter_files :: "env \<Rightarrow> pyval list option \<Rightarrow> pyval \<Rightarrow> string gen \<Rightarrow> string gen" where
  "filter_files env sfx rel ([], err) = ([], err)"
| "filter_files env sfx rel (f # fs, err) =
     (case keep_file f sfx of
        Inl e \<Rightarrow> ([], Some e)
      | Inr False \<Rightarrow> filter_files env sfx rel (fs, err)
      | Inr True \<Rightarrow>
          (case (if truthy rel then relpath env f rel else Inr f) of
             Inl e \<Rightarrow> ([], Some e)
           | Inr f' \<Rightarrow> (case filter_files env sfx rel (fs, err) of (ys, e) \<Rightarrow> (f' # ys, e))))"

text \<open>
  \<^verbatim>\<open>
      if suffix and not isinstance(suffix, str):
          filenames = get_files(root)
          suffix = tuple(suffix)
      else:
          filenames = get_files(root, suffix=suffix)
          suffix = None
  \<close>
  \<open>get_files(root)\<close> only creates a generator; \<open>tuple(suffix)\<close> runs before its
  first item is asked for.
\<close>

definition iter_files_str ::
  "env \<Rightarrow> pyval \<Rightarrow> pyval \<Rightarrow> pyval \<Rightarrow> files_fn \<Rightarrow> glob_hook \<Rightarrow> walk_hook \<Rightarrow> string gen" where
  "iter_files_str env root suffix relparent get_files g w =
     (if truthy suffix \<and> \<not> is_str suffix then
        (case py_iter suffix of
           Inl e \<Rightarrow> ([], Some e)
         | Inr sfxs \<Rightarrow> filter_files env (Some sfxs) relparent (pick_files get_files g w root None))
      else filter_files env None relparent (pick_files get_files g w root (Some suffix)))"

text \<open>
  \<^verbatim>\<open>
  def iter_files(root, suffix=None, relparent=None, *,
                 get_files=os.walk, _glob=glob_tree, _walk=walk_tree):
      if not isinstance(root, str):
          roots = root
          for root in roots:
              yield from iter_files(root, suffix, relparent,
                                    get_files=get_files,
                                    _glob=_glob, _walk=_walk)
          return
      ...
  \<close>
\<close>

fun iter_files ::
  "env \<Rightarrow> pyval \<Rightarrow> pyval \<Rightarrow> pyval \<Rightarrow> files_fn \<Rightarrow> glob_hook \<Rightarrow> walk_hook \<Rightarrow> string gen"
and iter_files_roots ::
  "env \<Rightarrow> pyval list \<Rightarrow> pyval \<Rightarrow> pyval \<Rightarrow> files_fn \<Rightarrow> glob_hook \<Rightarrow> walk_hook \<Rightarrow> string gen"
where
  "iter_files env (PStr r) suffix relparent get_files g w =
     iter_files_str env (PStr r) suffix relparent get_files g w"
| "iter_files env (PSeq roots) suffix relparent get_files g w =
     iter_files_roots env roots suffix relparent get_files g w"
| "iter_files env PNone suffix relparent get_files g w =
     ([], Some (TypeError ''NoneType object is not iterable''))"
| "iter_files env (PInt i) suffix relparent get_files g w =
     ([], Some (TypeError ''int object is not iterable''))"
| "iter_files_roots env [] suffix relparent get_files g w = ([], None)"
| "iter_files_roots env (r # rs) suffix relparent get_files g w =
     (case iter_files env r suffix relparent get_files g w of
        (ys, Some e) \<Rightarrow> (ys, Some e)
      | (ys, None) \<Rightarrow>
          (case iter_files_roots env rs suffix relparent get_files g w of
             (zs, e) \<Rightarrow> (ys @ zs, e)))"

subsection \<open>\<open>iter_files_by_suffix\<close>\<close>

text \<open>
  \<^verbatim>\<open>
  def iter_files_by_suffix(root, suffixes, relparent=None, *,
                           walk=walk_tree, _iter_files=iter_files):
      if isinstance(suffixes, str):
          suffixes = [suffixes]
      for suffix in suffixes:
          yield from _iter_files(root, None, relparent,
                                 get_files=get_files,
                                 )
  \<close>
  \<open>get_files\<close> is neither a parameter nor a local here: it is a global lookup, made
  once per suffix while the arguments of the call are evaluated.
\<close>

type_synonym iter_files_hook = "pyval \<Rightarrow> pyval \<Rightarrow> pyval \<Rightarrow> files_fn \<Rightarrow> string gen"

definition iter_files_by_suffix ::
  "env \<Rightarrow> pyval \<Rightarrow> pyval \<Rightarrow> pyval \<Rightarrow> files_fn \<Rightarrow> iter_files_hook \<Rightarrow> string gen" where
  "iter_files_by_suffix env root suffixes relparent walk it =
     (case py_iter (if is_str suffixes then PSeq [suffixes] else suffixes) of
        Inl e \<Rightarrow> ([], Some e)
      | Inr sfxs \<Rightarrow>
          gen_chain
            (\<lambda>suffix. case load_global ''get_files'' of
                         Inl e \<Rightarrow> ([], Some e)
                       | Inr n \<Rightarrow> it root PNone relparent (bound_files env n))
            sfxs)"

definition iter_files_default :: "env \<Rightarrow> iter_files_hook" where
  "iter_files_default env root suffix relparent get_files =
     iter_files env root suffix relparent get_files (glob_tree_hook env) (walk_tree_hook env)"

subsection \<open>A concrete environment\<close>

text \<open>
  An empty file system, and a walk function a caller could pass: it reports one
  directory \<open>d\<close> holding one file \<open>spam.c\<close>, whatever the root.
\<close>

definition env0 :: env where
  "env0 = \<lparr>os_walk = (\<lambda>root. ([], None)), iglob = (\<lambda>pat. ([], None)),
            path_join = (\<lambda>a b. a @ ''/'' @ b), relpath = (\<lambda>f rel. Inr f),
            py_format = (\<lambda>v. []), call_bound = (\<lambda>n root. ([], None)),
            bound_files = (\<lambda>n. OsWalkF)\<rparr>"

definition one_dir_walk :: "pyval \<Rightarrow> entry gen" where
  "one_dir_walk root = ([(''d'', [], [''spam.c''])], None)"

section \<open>The variable extraction driver\<close>

text \<open>
  The module \<open>test.test_c_statics.cg.parse\<close> (\<open>iter_variables\<close>, the two statement
  iterators and the three sub-parsers) is not among the sources; its test
  \<open>Lib/test/test_c_statics/test_cg/test_parse.py\<close> is. The driver is therefore written
  from sections 3 and 4.5 of the specification, and the sub-parsers are parameters of
  it, as they are keyword parameters of \<open>iter_variables\<close> in the test. The stand-ins
  the test passes for them are translated from the test itself, further down.
\<close>

subsection \<open>Data model\<close>

text \<open>
  Modelled from the spec: the tuples of section 3. A Declaration is a statement text
  with an optional body, a LocalStatement a statement text with optional
  \<open>(header, block)\<close> pairs, a VariableInfo a \<open>(name, type)\<close> pair or the null pair
  (\<open>None\<close> here), a VariableRecord the triple of the enclosing function, if any, the
  name and the type. \<open>parse_compound\<close> returns the decomposed headers (each a list of
  fragments) and the raw blocks. A body or a block is a list of lines.
\<close>

type_synonym decl = "string \<times> string list option"
type_synonym header_block = "string \<times> string list"
type_synonym lstmt = "string \<times> header_block list option"
type_synonym vinfo = "(string \<times> string) option"
type_synonym vrec = "string option \<times> string \<times> string"
type_synonym func_info = "string \<times> string \<times> string list"
type_synonym compound = "string list list \<times> string list list"

text \<open>
  Modelled from the spec: the collaborators the driver orchestrates (sections 2 and
  4.4). Each takes and returns a state of the caller's choice, so that a stand-in can
  record its calls and hand out scripted results; a pure parser ignores it. What the
  driver iterates over can fail to be a sequence of lines or of statements: "errors
  from the file-read collaborator propagate unchanged to the caller" (section 7), and
  a result of a statement iterator whose items do not unpack into a statement text and
  a body raises in the loop of the driver. Such a result is \<open>Inl\<close> of the exception.
  The three sub-parsers return a value: \<open>parse_func\<close> "must never fail",
  \<open>parse_var\<close> "returns the null pair" where it cannot classify (section 4.4).
\<close>

record 's parsers =
  iter_source_lines :: "string \<Rightarrow> 's \<Rightarrow> (error + string list) \<times> 's"
  iter_global :: "string list \<Rightarrow> 's \<Rightarrow> (error + decl list) \<times> 's"
  iter_local :: "string list \<Rightarrow> 's \<Rightarrow> (error + lstmt list) \<times> 's"
  parse_func :: "string \<Rightarrow> string list \<Rightarrow> 's \<Rightarrow> func_info \<times> 's"
  parse_var :: "string \<Rightarrow> 's \<Rightarrow> vinfo \<times> 's"
  parse_compound :: "string \<Rightarrow> header_block list \<Rightarrow> 's \<Rightarrow> compound \<times> 's"

subsection \<open>The driver\<close>

text \<open>
  Modelled from the spec: "if it returns a real name, yield \<open>(None, name, type)\<close>"
  and "yield \<open>(functionName, name, type)\<close> on a real name" (section 4.5); the null
  pair yields nothing.
\<close>

definition emit :: "string option \<Rightarrow> vinfo \<Rightarrow> vrec list" where
  "emit fn v = (case v of None \<Rightarrow> [] | Some (name, ty) \<Rightarrow> [(fn, name, ty)])"

text \<open>
  Modelled from the spec: "run \<open>parse_var\<close> once per decomposed header fragment
  (yielding any real declarations found)" (section 4.5).
\<close>

fun scan_fragments ::
  "'s parsers \<Rightarrow> string option \<Rightarrow> string list \<Rightarrow> 's \<Rightarrow> vrec list \<times> 's" where
  "scan_fragments P fn [] s = ([], s)"
| "scan_fragments P fn (t # ts) s =
     (case parse_var P t s of
        (v, s1) \<Rightarrow> (case scan_fragments P fn ts s1 of (rs, s2) \<Rightarrow> (emit fn v @ rs, s2)))"

text \<open>
  Modelled from the spec: "For each LocalStatement at any level: if \<open>compoundBlocks\<close>
  is \<open>None\<close>, run \<open>parse_var\<close> and yield \<open>(functionName, name, type)\<close> on a real
  name; if \<open>compoundBlocks\<close> is not \<open>None\<close>, run \<open>parse_compound\<close>, run
  \<open>parse_var\<close> once per decomposed header fragment, and enqueue each resulting raw
  block" (section 4.5). The result is the records yielded and the blocks to enqueue.
\<close>

fun scan_statement ::
  "'s parsers \<Rightarrow> string \<Rightarrow> lstmt \<Rightarrow> 's \<Rightarrow> (vrec list \<times> string list list) \<times> 's" where
  "scan_statement P fn (stmt, None) s =
     (case parse_var P stmt s of (v, s1) \<Rightarrow> ((emit (Some fn) v, []), s1))"
| "scan_statement P fn (stmt, Some hbs) s =
     (case parse_compound P stmt hbs s of
        ((headers, blocks), s1) \<Rightarrow>
          (case scan_fragments P (Some fn) (concat headers) s1 of
             (rs, s2) \<Rightarrow> ((rs, blocks), s2)))"

text \<open>
  Modelled from the spec: the statements of one line group are scanned in source
  order; "a block's own nested statements are queued for processing only after all
  sibling statements at the current level have been scanned" (section 4.5).
\<close>

fun scan_statements ::
  "'s parsers \<Rightarrow> string \<Rightarrow> lstmt list \<Rightarrow> 's \<Rightarrow> (vrec list \<times> string list list) \<times> 's" where
  "scan_statements P fn [] s = (([], []), s)"
| "scan_statements P fn (x # xs) s =
     (case scan_statement P fn x s of
        ((rs, bs), s1) \<Rightarrow>
          (case scan_statements P fn xs s1 of
             ((rs', bs'), s2) \<Rightarrow> ((rs @ rs', bs @ bs'), s2)))"

text \<open>
  Modelled from the spec: "maintaining a FIFO queue of pending line-groups to process
  (the function body first, then each nested block discovered, in the order its
  compound statement was encountered)", every group "still attributed to the same
  enclosing function name" (section 4.5). The sub-parsers are arbitrary, so the queue
  need not run empty: the loop takes fuel, one unit per line group, and \<open>None\<close> is a
  run that was cut short. A run that ends is the records yielded and the exception that
  ended it, if one did: the driver is a generator, and what it yielded before an
  exception has been yielded.
\<close>

fun iter_locals ::
  "nat \<Rightarrow> 's parsers \<Rightarrow> string \<Rightarrow> string list list \<Rightarrow> 's \<Rightarrow> (vrec gen \<times> 's) option" where
  "iter_locals fuel P fn [] s = Some (([], None), s)"
| "iter_locals 0 P fn (b # q) s = None"
| "iter_locals (Suc fuel) P fn (b # q) s =
     (case iter_local P b s of
        (Inl e, s1) \<Rightarrow> Some (([], Some e), s1)
      | (Inr stmts, s1) \<Rightarrow>
          (case scan_statements P fn stmts s1 of
             ((rs, bs), s2) \<Rightarrow>
               (case iter_locals fuel P fn (q @ bs) s2 of
                  None \<Rightarrow> None
                | Some ((rs', e), s3) \<Rightarrow> Some ((rs @ rs', e), s3))))"

text \<open>
  Modelled from the spec: "For each Declaration from 4.2: if \<open>body\<close> is \<open>None\<close>: run
  \<open>parse_var\<close>; if it returns a real name, yield \<open>(None, name, type)\<close>. If \<open>body\<close>
  is not \<open>None\<close>: run \<open>parse_func\<close> to get the function name; recursively run the
  Local Statement Iterator over \<open>body\<close>" (section 4.5).
\<close>

fun iter_declarations ::
  "nat \<Rightarrow> 's parsers \<Rightarrow> decl list \<Rightarrow> 's \<Rightarrow> (vrec gen \<times> 's) option" where
  "iter_declarations fuel P [] s = Some (([], None), s)"
| "iter_declarations fuel P ((stmt, None) # ds) s =
     (case parse_var P stmt s of
        (v, s1) \<Rightarrow>
          (case iter_declarations fuel P ds s1 of
             None \<Rightarrow> None
           | Some ((rs, e), s2) \<Rightarrow> Some ((emit None v @ rs, e), s2)))"
| "iter_declarations fuel P ((stmt, Some body) # ds) s =
     (case parse_func P stmt body s of
        ((fn, sig, fbody), s1) \<Rightarrow>
          (case iter_locals fuel P fn [body] s1 of
             None \<Rightarrow> None
           | Some ((rs, Some e), s2) \<Rightarrow> Some ((rs, Some e), s2)
           | Some ((rs, None), s2) \<Rightarrow>
               (case iter_declarations fuel P ds s2 of
                  None \<Rightarrow> None
                | Some ((rs', e), s3) \<Rightarrow> Some ((rs @ rs', e), s3))))"

text \<open>
  Modelled from the spec: "given a file path, produce a lazy, finite, single-pass
  sequence of VariableRecord" (section 4.5), along the data flow of section 2: file
  path, line stream, Global Declaration Iterator, then each declaration in turn.
\<close>

definition iter_variables ::
  "nat \<Rightarrow> 's parsers \<Rightarrow> string \<Rightarrow> 's \<Rightarrow> (vrec gen \<times> 's) option" where
  "iter_variables fuel P filename s =
     (case iter_source_lines P filename s of
        (Inl e, s0) \<Rightarrow> Some (([], Some e), s0)
      | (Inr lines, s0) \<Rightarrow>
          (case iter_global P lines s0 of
             (Inl e, s1) \<Rightarrow> Some (([], Some e), s1)
           | (Inr decls, s1) \<Rightarrow> iter_declarations fuel P decls s1))"

section \<open>The stand-ins of \<open>IterVariablesTests\<close>\<close>

text \<open>
  \<open>test_parse.py\<close>, lines 361 to 411. Each stand-in appends its call to
  \<open>self.calls\<close> and pops the next scripted result:
  \<^verbatim>\<open>
  def _parse_var(self, lines):
      self.calls.append(
              ('_parse_var', (lines,)))
      try:
          return self._return_parse_var.pop(0)
      except IndexError:
          return ('???', '???')
  \<close>
  The test writes a body or a block as one string (\<open>'<body 1>'\<close>) and
  \<open>_iter_local\<close> receives the list of its lines (\<open>['<body 1>']\<close>); here it is the
  list of lines throughout. A string iterated as a header gives its characters, so the
  fallback header \<open>'???'\<close> of \<open>_parse_compound\<close> is three fragments \<open>'?'\<close>.
\<close>

datatype call =
  CIterSourceLines string
| CIterGlobal "string list"
| CIterLocal "string list"
| CParseFunc string "string list"
| CParseVar string
| CParseCompound string "header_block list"

record stubs =
  calls :: "call list"
  return_iter_source_lines :: "string list"
  return_iter_global :: "decl list list"
  return_iter_local :: "lstmt list list"
  return_parse_func :: "func_info list"
  return_parse_var :: "vinfo list"
  return_parse_compound :: "compound list"

text \<open>\<open>q.pop(0)\<close> with the \<open>IndexError\<close> caught: the fallback and the empty list.\<close>

definition pop_or :: "'a \<Rightarrow> 'a list \<Rightarrow> 'a \<times> 'a list" where
  "pop_or d q = (case q of [] \<Rightarrow> (d, []) | r # rest \<Rightarrow> (r, rest))"

definition func_fallback :: func_info where
  "func_fallback = (''???'', ''???'', [''???''])"

definition var_fallback :: vinfo where
  "var_fallback = Some (''???'', ''???'')"

definition compound_fallback :: compound where
  "compound_fallback = ([[''?'', ''?'', ''?'']], [[''???'']])"

text \<open>\<open>_iter_source_lines\<close> returns the lines of the scripted content, at every call.\<close>

definition stub_iter_source_lines ::
  "string \<Rightarrow> stubs \<Rightarrow> (error + string list) \<times> stubs" where
  "stub_iter_source_lines filename st =
     (Inr (return_iter_source_lines st), st\<lparr>calls := calls st @ [CIterSourceLines filename]\<rparr>)"

text \<open>
  \<^verbatim>\<open>
  def _iter_local(self, lines):
      self.calls.append(
              ('_iter_local', (lines,)))
      try:
          return self._return_iter_local.pop(0)
      except IndexError:
          return ('???', None)
  \<close>
  and \<open>_iter_global\<close> likewise. The fallback is the pair \<open>('???', None)\<close>, not a
  sequence of statements: the first item a loop over it gets is the string \<open>'???'\<close>,
  three characters, and unpacking it into a statement text and a body raises
  \<open>ValueError\<close>. The call is recorded all the same.
\<close>

definition not_statements :: error where
  "not_statements = ValueError ''too many values to unpack (expected 2)''"

definition stub_iter_global :: "string list \<Rightarrow> stubs \<Rightarrow> (error + decl list) \<times> stubs" where
  "stub_iter_global lines st =
     (case return_iter_global st of
        [] \<Rightarrow> (Inl not_statements, st\<lparr>calls := calls st @ [CIterGlobal lines]\<rparr>)
      | r # rest \<Rightarrow>
          (Inr r, st\<lparr>calls := calls st @ [CIterGlobal lines], return_iter_global := rest\<rparr>))"

definition stub_iter_local :: "string list \<Rightarrow> stubs \<Rightarrow> (error + lstmt list) \<times> stubs" where
  "stub_iter_local lines st =
     (case return_iter_local st of
        [] \<Rightarrow> (Inl not_statements, st\<lparr>calls := calls st @ [CIterLocal lines]\<rparr>)
      | r # rest \<Rightarrow>
          (Inr r, st\<lparr>calls := calls st @ [CIterLocal lines], return_iter_local := rest\<rparr>))"

definition stub_parse_func :: "string \<Rightarrow> string list \<Rightarrow> stubs \<Rightarrow> func_info \<times> stubs" where
  "stub_parse_func stmt body st =
     (case pop_or func_fallback (return_parse_func st) of
        (r, rest) \<Rightarrow>
          (r, st\<lparr>calls := calls st @ [CParseFunc stmt body], return_parse_func := rest\<rparr>))"

definition stub_parse_var :: "string \<Rightarrow> stubs \<Rightarrow> vinfo \<times> stubs" where
  "stub_parse_var text st =
     (case pop_or var_fallback (return_parse_var st) of
        (r, rest) \<Rightarrow> (r, st\<lparr>calls := calls st @ [CParseVar text], return_parse_var := rest\<rparr>))"

definition stub_parse_compound ::
  "string \<Rightarrow> header_block list \<Rightarrow> stubs \<Rightarrow> compound \<times> stubs" where
  "stub_parse_compound stmt blocks st =
     (case pop_or compound_fallback (return_parse_compound st) of
        (r, rest) \<Rightarrow>
          (r, st\<lparr>calls := calls st @ [CParseCompound stmt blocks],
                  return_parse_compound := rest\<rparr>))"

definition test_parsers :: "stubs parsers" where
  "test_parsers =
     \<lparr>iter_source_lines = stub_iter_source_lines, iter_global = stub_iter_global,
      iter_local = stub_iter_local, parse_func = stub_parse_func,
      parse_var = stub_parse_var, parse_compound = stub_parse_compound\<rparr>"

subsection \<open>\<open>test_typical\<close>\<close>

text \<open>The script of \<open>test_typical\<close> (lines 464 to 510), and what the test asserts of
  the records (lines 521 to 528) and of the calls (lines 529 to 546).\<close>

definition test_typical :: stubs where
  "test_typical =
     \<lparr>calls = [],
      return_iter_source_lines = ['''', ''...''],
      return_iter_global =
        [[(''<lines 1>'', None), (''<lines 2>'', None), (''<lines 3>'', None),
          (''<lines 4>'', Some [''<body 1>'']), (''<lines 9>'', None)]],
      return_iter_local =
        [[(''<lines 5>'', None), (''<lines 6>'', Some [(''<header 1>'', [''<block 1>''])]),
          (''<lines 8>'', None)],
         [(''<lines 7>'', None)]],
      return_parse_func = [(''func1'', ''<sig 1>'', [''<body 1>''])],
      return_parse_var =
        [Some (''var1'', ''<vartype 1>''), None, Some (''var2'', ''<vartype 2>''),
         Some (''var3'', ''<vartype 3>''), Some (''var2'', ''<vartype 2b>''),
         Some (''var4'', ''<vartype 4>''), None, None, None,
         Some (''var5'', ''<vartype 5>'')],
      return_parse_compound = [([[''if ('', ''<simple>'', '')'']], [[''<block 1>'']])]\<rparr>"

definition test_typical_srcvars :: "vrec list" where
  "test_typical_srcvars =
     [(None, ''var1'', ''<vartype 1>''), (None, ''var2'', ''<vartype 2>''),
      (Some ''func1'', ''var3'', ''<vartype 3>''), (Some ''func1'', ''var2'', ''<vartype 2b>''),
      (Some ''func1'', ''var4'', ''<vartype 4>''), (None, ''var5'', ''<vartype 5>'')]"

definition test_typical_calls :: "call list" where
  "test_typical_calls =
     [CIterSourceLines ''spam.c'', CIterGlobal ['''', ''...''],
      CParseVar ''<lines 1>'', CParseVar ''<lines 2>'', CParseVar ''<lines 3>'',
      CParseFunc ''<lines 4>'' [''<body 1>''], CIterLocal [''<body 1>''],
      CParseVar ''<lines 5>'',
      CParseCompound ''<lines 6>'' [(''<header 1>'', [''<block 1>''])],
      CParseVar ''if ('', CParseVar ''<simple>'', CParseVar '')'',
      CParseVar ''<lines 8>'', CIterLocal [''<block 1>''],
      CParseVar ''<lines 7>'', CParseVar ''<lines 9>'']"



subsection \<open>\<open>test_no_locals\<close>\<close>

text \<open>The script of \<open>test_no_locals\<close> (lines 548 to 592) and the calls it asserts
  (lines 607 to 623).\<close>

definition test_no_locals :: stubs where
  "test_no_locals =
     \<lparr>calls = [],
      return_iter_source_lines = ['''', ''...''],
      return_iter_global =
        [[(''<lines 1>'', None), (''<lines 2>'', None), (''<lines 3>'', None),
          (''<lines 4>'', Some [''<body 1>''])]],
      return_iter_local =
        [[(''<lines 5>'', None), (''<lines 6>'', Some [(''<header 1>'', [''<block 1>''])]),
          (''<lines 8>'', None)],
         [(''<lines 7>'', None)]],
      return_parse_func = [(''func1'', ''<sig 1>'', [''<body 1>''])],
      return_parse_var =
        [Some (''var1'', ''<vartype 1>''), None, Some (''var2'', ''<vartype 2>''),
         None, None, None, None, None, None],
      return_parse_compound = [([[''if ('', ''<simple>'', '')'']], [[''<block 1>'']])]\<rparr>"

definition test_no_locals_calls :: "call list" where
  "test_no_locals_calls =
     [CIterSourceLines ''spam.c'', CIterGlobal ['''', ''...''],
      CParseVar ''<lines 1>'', CParseVar ''<lines 2>'', CParseVar ''<lines 3>'',
      CParseFunc ''<lines 4>'' [''<body 1>''], CIterLocal [''<body 1>''],
      CParseVar ''<lines 5>'',
      CParseCompound ''<lines 6>'' [(''<header 1>'', [''<block 1>''])],
      CParseVar ''if ('', CParseVar ''<simple>'', CParseVar '')'',
      CParseVar ''<lines 8>'', CIterLocal [''<block 1>''],
      CParseVar ''<lines 7>'']"

subsection \<open>A script with a name declared three times\<close>


subsection \<open>Reading a run off the stand-ins\<close>


fun is_var_call :: "call \<Rightarrow> bool" where
  "is_var_call (CParseVar t) = True"
| "is_var_call c = False"

fun is_compound_call :: "call \<Rightarrow> bool" where
  "is_compound_call (CParseCompound t hbs) = True"
| "is_compound_call c = False"

fun is_local_call :: "call \<Rightarrow> bool" where
  "is_local_call (CIterLocal b) = True"
| "is_local_call c = False"









section \<open>Properties of the file enumeration\<close>

lemma uwalk_tree_unbound: "uwalk_tree env root = ([], Some (NameError ''_walk''))"
  by (simp add: uwalk_tree_def load_global_def module_names_def builtin_names_def)

lemma get_files_unbound: "load_global ''get_files'' = Inl (NameError ''get_files'')"
  by (simp add: load_global_def module_names_def builtin_names_def)

lemma walk_tree_default: "walk_tree env root PNone UWalkTree = ([], Some (NameError ''_walk''))"
  by (simp add: walk_tree_def uwalk_tree_unbound join_entries_def)

lemma iter_files_roots_chain:
  "iter_files_roots env rs sfx rel gf g w = gen_chain (\<lambda>r. iter_files env r sfx rel gf g w) rs"
  by (induction rs) (auto split: prod.splits option.splits)

text \<open>
  Claim C10. For every string root, \<open>iter_files\<close> with its default arguments ends with
  a \<open>NameError\<close> for \<open>_walk\<close> before it yields a file: the default \<open>os.walk\<close> is
  replaced by \<open>_walk_tree\<close>, whose body looks up the unbound global \<open>_walk\<close>. And
  \<open>iter_files_by_suffix\<close> with at least one suffix (a single string, or a sequence with
  a first item) ends with a \<open>NameError\<close> for \<open>get_files\<close> before it yields, whatever
  the root and the other arguments are.
\<close>

theorem iter_files_defaults_raise_NameError:
  "iter_files_default env (PStr r) PNone PNone OsWalkF = ([], Some (NameError ''_walk''))
   \<and> iter_files_by_suffix env root (PStr s) relparent walk it
       = ([], Some (NameError ''get_files''))
   \<and> iter_files_by_suffix env root (PSeq (x # xs)) relparent walk it
       = ([], Some (NameError ''get_files''))"
  by (simp add: iter_files_default_def iter_files_str_def walk_tree_hook_def kw_default_def
       walk_tree_default iter_files_by_suffix_def get_files_unbound)

theorem iter_files_defaults_raise_NameError_witness:
  "iter_files_default env0 (PStr ''Modules'') PNone PNone OsWalkF
     = ([], Some (NameError ''_walk''))
   \<and> iter_files_by_suffix env0 (PStr ''Modules'') (PStr ''.c'') PNone WalkTree
        (iter_files_default env0) = ([], Some (NameError ''get_files''))
   \<and> iter_files_by_suffix env0 (PStr ''Modules'') (PSeq [PStr ''.c'', PStr ''.h'']) PNone
        WalkTree (iter_files_default env0) = ([], Some (NameError ''get_files''))"
  using iter_files_defaults_raise_NameError
          [where env = env0 and r = "''Modules''" and root = "PStr ''Modules''" and s = "''.c''"
             and relparent = PNone and walk = WalkTree and it = "iter_files_default env0"
             and x = "PStr ''.c''" and xs = "[PStr ''.h'']"]
  by simp

text \<open>
  Claim C9, as stated: a non-string root is refused with an invalid-argument error
  before anything is yielded. It is not: an empty sequence of roots ends normally with
  no file, a sequence holding one root yields that root's files, and \<open>walk_tree\<close>
  hands the root \<open>5\<close> to its walk function and yields what it reports.
\<close>

theorem nonstring_root_accepted_counterexample:
  "iter_files_default env0 (PSeq []) PNone PNone OsWalkF = ([], None)
   \<and> iter_files_default env0 (PSeq [PStr ''d'']) PNone PNone (UserFiles one_dir_walk)
       = ([''d/spam.c''], None)
   \<and> walk_tree env0 (PInt 5) PNone (UserWalk one_dir_walk) = ([''d/spam.c''], None)"
  by (simp add: iter_files_default_def iter_files_str_def walk_tree_hook_def kw_default_def
        walk_tree_def join_entries_def one_dir_walk_def env0_def)

text \<open>
  Claim C9, amended. \<open>iter_files\<close> takes a sequence as a list of roots and enumerates
  each in order with the same arguments, stopping at the first error; a root that is
  neither a string nor iterable ends it with a \<open>TypeError\<close> before any file is yielded.
  \<open>walk_tree\<close> does not look at the root: with a suffix it accepts, the only error it
  can end with is the one of its walk function. The invalid-argument error
  (\<open>ValueError\<close>, "suffix must be a string") is about the suffix: \<open>walk_tree\<close> and
  \<open>glob_tree\<close> raise it for a truthy suffix that is not a string, whatever the root is,
  before the tree is walked or a file is yielded.
\<close>

theorem root_not_checked_suffix_is:
  "iter_files env (PSeq roots) sfx rel gf g w
     = gen_chain (\<lambda>r. iter_files env r sfx rel gf g w) roots
   \<and> iter_files env PNone sfx rel gf g w
       = ([], Some (TypeError ''NoneType object is not iterable''))
   \<and> iter_files env (PInt i) sfx rel gf g w
       = ([], Some (TypeError ''int object is not iterable''))
   \<and> (truthy sfx \<and> \<not> is_str sfx \<longrightarrow>
        walk_tree env root sfx walk = ([], Some (ValueError ''suffix must be a string''))
      \<and> glob_tree env root sfx = ([], Some (ValueError ''suffix must be a string'')))
   \<and> (\<not> (truthy sfx \<and> \<not> is_str sfx) \<longrightarrow>
        snd (walk_tree env root sfx (UserWalk f)) = snd (f root))"
  by (auto simp: iter_files_roots_chain walk_tree_def glob_tree_def split: prod.splits)

theorem root_not_checked_suffix_is_witness:
  "truthy (PSeq [PStr ''.c'']) \<and> \<not> is_str (PSeq [PStr ''.c''])
   \<and> walk_tree env0 (PStr ''d'') (PSeq [PStr ''.c'']) (UserWalk one_dir_walk)
       = ([], Some (ValueError ''suffix must be a string''))
   \<and> glob_tree env0 (PStr ''d'') (PSeq [PStr ''.c''])
       = ([], Some (ValueError ''suffix must be a string''))
   \<and> \<not> (truthy (PStr ''.c'') \<and> \<not> is_str (PStr ''.c''))
   \<and> snd (walk_tree env0 (PInt 5) (PStr ''.c'') (UserWalk one_dir_walk))
       = snd (one_dir_walk (PInt 5))
   \<and> iter_files env0 (PSeq [PStr ''d'', PStr ''e'']) (PStr ''.c'') PNone
        (UserFiles one_dir_walk) (glob_tree_hook env0) (walk_tree_hook env0)
       = ([''d/spam.c'', ''d/spam.c''], None)"
  using root_not_checked_suffix_is
          [where env = env0 and roots = "[PStr ''d'', PStr ''e'']" and sfx = "PSeq [PStr ''.c'']"
             and root = "PStr ''d''" and walk = "UserWalk one_dir_walk" and f = one_dir_walk]
        root_not_checked_suffix_is
          [where env = env0 and roots = "[PStr ''d'', PStr ''e'']" and sfx = "PStr ''.c''"
             and rel = PNone and gf = "UserFiles one_dir_walk" and g = "glob_tree_hook env0"
             and w = "walk_tree_hook env0"
             and root = "PInt 5" and walk = "UserWalk one_dir_walk" and f = one_dir_walk]
  by (simp add: iter_files_str_def walk_tree_hook_def kw_default_def
        walk_tree_def join_entries_def one_dir_walk_def env0_def endswith_def)

section \<open>Properties of the variable extraction driver\<close>

subsection \<open>The driver against the tests\<close>

lemmas stub_defs =
  test_parsers_def stub_iter_source_lines_def stub_iter_global_def stub_iter_local_def
  stub_parse_func_def stub_parse_var_def stub_parse_compound_def pop_or_def
  func_fallback_def var_fallback_def compound_fallback_def emit_def

text \<open>With the stand-ins of \<open>test_typical\<close> and of \<open>test_no_locals\<close> the driver
  yields the records and makes the calls that the tests assert, and ends with no
  exception.\<close>

lemma test_typical_reproduced:
  "map_option fst (iter_variables 2 test_parsers ''spam.c'' test_typical)
     = Some (test_typical_srcvars, None)"
  "map_option (calls \<circ> snd) (iter_variables 2 test_parsers ''spam.c'' test_typical)
     = Some test_typical_calls"
  by (simp_all add: iter_variables_def test_typical_def test_typical_srcvars_def
      test_typical_calls_def stub_defs numeral_2_eq_2)

lemma test_no_locals_reproduced:
  "map_option fst (iter_variables 2 test_parsers ''spam.c'' test_no_locals)
     = Some ([(None, ''var1'', ''<vartype 1>''), (None, ''var2'', ''<vartype 2>'')], None)"
  "map_option (calls \<circ> snd) (iter_variables 2 test_parsers ''spam.c'' test_no_locals)
     = Some test_no_locals_calls"
  by (simp_all add: iter_variables_def test_no_locals_def test_no_locals_calls_def stub_defs
        numeral_2_eq_2)

subsection \<open>Runs of the stand-ins\<close>











lemma filter_var_map [simp]:
  "filter is_var_call (map CParseVar ts) = map CParseVar ts"
  "filter is_compound_call (map CParseVar ts) = []"
  "filter is_local_call (map CParseVar ts) = []"
  by (induction ts) simp_all

















subsection \<open>Enough fuel ends the run\<close>











subsection \<open>Compound statements\<close>



subsection \<open>No deduplication\<close>



end
